theory Spec2Isabelle
  imports Main "HOL-Library.Word"
begin

section \<open>JavaScript strings\<close>

text \<open>
  A JavaScript string is a sequence of UTF-16 code units. \<open>charCodeAt\<close>, \<open>length\<close>,
  \<open>slice\<close> and the relational operators all work on code units, so the model is a list
  of 16-bit words. \<open>js\<close> turns an ASCII literal of the source into such a list.
\<close>

type_synonym jsstring = "16 word list"

definition js :: "string \<Rightarrow> jsstring" where
  "js = map of_char"

definition esc :: "16 word" where
  "esc = 0x1B"

text \<open>
  \<open>s.charCodeAt(0)\<close>: the first code unit, or NaN (here \<open>None\<close>) on the empty string.
  A comparison \<open>code === n\<close> with NaN is false, as \<open>None = Some n\<close> is.
\<close>

definition charCodeAt0 :: "jsstring \<Rightarrow> 16 word option" where
  "charCodeAt0 s = (case s of [] \<Rightarrow> None | c # _ \<Rightarrow> Some c)"

text \<open>\<open>s.slice(1)\<close> and \<open>s.slice(0, -1)\<close>.\<close>

definition slice1 :: "jsstring \<Rightarrow> jsstring" where
  "slice1 s = drop 1 s"

definition slice0m1 :: "jsstring \<Rightarrow> jsstring" where
  "slice0m1 s = take (length s - 1) s"

text \<open>
  \<open>a < b\<close> on strings compares code units from the left; a proper prefix is smaller.
  \<open>a >= b\<close> is its negation.
\<close>

fun js_lt :: "jsstring \<Rightarrow> jsstring \<Rightarrow> bool" where
  "js_lt [] [] = False"
| "js_lt [] (y # ys) = True"
| "js_lt (x # xs) [] = False"
| "js_lt (x # xs) (y # ys) = (x < y \<or> (x = y \<and> js_lt xs ys))"

definition js_ge :: "jsstring \<Rightarrow> jsstring \<Rightarrow> bool" where
  "js_ge a b = (\<not> js_lt a b)"

text \<open>
  The code units that \<open>String.prototype.trim\<close> strips and that \<open>\s\<close> matches in a
  regular expression: ECMAScript's WhiteSpace and LineTerminator.
\<close>

definition isWhiteSpace :: "16 word \<Rightarrow> bool" where
  "isWhiteSpace c =
     (c = 0x09 \<or> c = 0x0A \<or> c = 0x0B \<or> c = 0x0C \<or> c = 0x0D \<or> c = 0x20 \<or> c = 0xA0
      \<or> c = 0x1680 \<or> (0x2000 \<le> c \<and> c \<le> 0x200A) \<or> c = 0x2028 \<or> c = 0x2029
      \<or> c = 0x202F \<or> c = 0x205F \<or> c = 0x3000 \<or> c = 0xFEFF)"

definition trim :: "jsstring \<Rightarrow> jsstring" where
  "trim s = rev (dropWhile isWhiteSpace (rev (dropWhile isWhiteSpace s)))"

text \<open>
  \<open>s.split(/\s+/)\<close>: every maximal run of white space is one separator; the pieces
  between separators are returned, empty pieces at either end included, and the empty
  string gives one empty piece. \<open>cur\<close> is the piece being collected.
\<close>

function split_ws :: "jsstring \<Rightarrow> jsstring \<Rightarrow> jsstring list" where
  "split_ws cur [] = [cur]"
| "split_ws cur (c # cs) =
     (if isWhiteSpace c then cur # split_ws [] (dropWhile isWhiteSpace cs)
      else split_ws (cur @ [c]) cs)"
  by pat_completeness auto
termination
  by (relation "measure (\<lambda>(cur, s). length s)")
     (auto simp: le_imp_less_Suc length_dropWhile_le)

text \<open>\<open>s.split('\n')\<close>, written for any one separating code unit.\<close>

fun split_char :: "16 word \<Rightarrow> jsstring \<Rightarrow> jsstring \<Rightarrow> jsstring list" where
  "split_char sep cur [] = [cur]"
| "split_char sep cur (c # cs) =
     (if c = sep then cur # split_char sep [] cs else split_char sep (cur @ [c]) cs)"

text \<open>\<open>xs.join(sep)\<close>.\<close>

fun join :: "jsstring \<Rightarrow> jsstring list \<Rightarrow> jsstring" where
  "join sep [] = []"
| "join sep [x] = x"
| "join sep (x # y # ys) = x @ sep @ join sep (y # ys)"

text \<open>The decimal text of a non-negative integer, as a template literal inserts it.\<close>

fun show_nat :: "nat \<Rightarrow> jsstring" where
  "show_nat n =
     (if n < 10 then [of_nat (48 + n)]
      else show_nat (n div 10) @ [of_nat (48 + n mod 10)])"

declare show_nat.simps [simp del]

text \<open>
  An instance of \<open>toUpperCase\<close> on the ASCII letters. The console takes the upper-casing
  function as a parameter \<open>up\<close>; this instance is used where a concrete run is evaluated.
\<close>

definition ascii_upper :: "jsstring \<Rightarrow> jsstring" where
  "ascii_upper = map (\<lambda>c. if 0x61 \<le> c \<and> c \<le> 0x7A then c - 0x20 else c)"

section \<open>The content store\<close>

record DOSPost =
  id' :: jsstring
  title :: jsstring
  date :: jsstring
  content :: jsstring
  tags :: "jsstring list"

definition dosPosts :: "DOSPost list" where
  "dosPosts =
    [\<lparr>id' = js ''1'',
      title = js ''Welcome to DOS Terminal'',
      date = js ''2026-02-09'',
      content = js ''Welcome to my DOS-style terminal space!\<newline>\<newline>This is a retro-inspired interface built with xterm.js.\<newline>You can navigate using classic DOS commands.\<newline>\<newline>Available commands:\<newline>- HELP    - Show available commands\<newline>- LIST    - List all entries\<newline>- READ <id> - Read a specific entry\<newline>- CLEAR   - Clear the terminal\<newline>- ABOUT   - About this terminal\<newline>- EXIT    - Exit (just refresh the page)\<newline>\<newline>Enjoy your stay in the terminal!'',
      tags = [js ''welcome'', js ''intro'']\<rparr>,
     \<lparr>id' = js ''2'',
      title = js ''Building a DOS Terminal'',
      date = js ''2026-02-09'',
      content = js ''I've always been fascinated by retro computing and terminal interfaces.\<newline>There's something beautiful about the simplicity and directness of command-line interfaces.\<newline>\<newline>This experience is built using:\<newline>- xterm.js for the terminal emulator\<newline>- TypeScript for type safety\<newline>- Astro for the framework\<newline>\<newline>The DOS aesthetic brings back memories of simpler times when computing was more direct and less cluttered.'',
      tags = [js ''tech'', js ''retro'', js ''xterm'']\<rparr>,
     \<lparr>id' = js ''3'',
      title = js ''The Art of Minimalism'',
      date = js ''2026-02-08'',
      content = js ''Minimalism in design isn't about removing everything.\<newline>It's about keeping only what's essential.\<newline>\<newline>In terminal interfaces, every character matters.\<newline>Every command serves a purpose.\<newline>There's no room for unnecessary decoration.\<newline>\<newline>This philosophy extends beyond code to life itself.'',
      tags = [js ''philosophy'', js ''design'', js ''minimalism'']\<rparr>]"

section \<open>The display sink\<close>

text \<open>
  The xterm.js terminal is written to and never read. A call to it is recorded as a
  value; a method of the console that only writes is the list of calls it makes, in
  order.
\<close>

datatype call = Write jsstring | Writeln jsstring | Clear

definition printWelcome :: "call list" where
  "printWelcome =
    [Writeln (esc # js ''[32m'' @ 0x2554 # replicate 59 0x2550 @ 0x2557 # esc # js ''[0m''),
     Writeln (esc # js ''[32m'' @ 0x2551 # js ''                                                           '' @ 0x2551 # esc # js ''[0m''),
     Writeln (esc # js ''[32m'' @ 0x2551 # js ''                DOS TERMINAL INTERFACE v1.0                '' @ 0x2551 # esc # js ''[0m''),
     Writeln (esc # js ''[32m'' @ 0x2551 # js ''                                                           '' @ 0x2551 # esc # js ''[0m''),
     Writeln (esc # js ''[32m'' @ 0x255A # replicate 59 0x2550 @ 0x255D # esc # js ''[0m''),
     Writeln [],
     Writeln (esc # js ''[33mType HELP for available commands.'' @ esc # js ''[0m''),
     Writeln []]"

definition printPrompt :: "call list" where
  "printPrompt = [Write (esc # js ''[32mC:'' @ 0x5C # js ''DOS>'' @ esc # js ''[0m '')]"

section \<open>The command handlers\<close>

definition showHelp :: "call list" where
  "showHelp =
    [Writeln [],
     Writeln (esc # js ''[33m'' @ replicate 59 0x2550 @ esc # js ''[0m''),
     Writeln (esc # js ''[33m                    AVAILABLE COMMANDS'' @ esc # js ''[0m''),
     Writeln (esc # js ''[33m'' @ replicate 59 0x2550 @ esc # js ''[0m''),
     Writeln [],
     Writeln (js ''  '' @ esc # js ''[32mHELP'' @ esc # js ''[0m     - Display this help message''),
     Writeln (js ''  '' @ esc # js ''[32mLIST'' @ esc # js ''[0m     - List all entries''),
     Writeln (js ''  '' @ esc # js ''[32mREAD <id>'' @ esc # js ''[0m - Read a specific entry''),
     Writeln (js ''  '' @ esc # js ''[32mCLEAR'' @ esc # js ''[0m    - Clear the terminal screen''),
     Writeln (js ''  '' @ esc # js ''[32mABOUT'' @ esc # js ''[0m    - Show information about this terminal''),
     Writeln (js ''  '' @ esc # js ''[32mEXIT'' @ esc # js ''[0m     - Exit (refresh page)''),
     Writeln []]"

text \<open>The three lines that \<open>listEntries\<close> writes for one entry (the body of its \<open>forEach\<close>).\<close>

definition listEntry :: "DOSPost \<Rightarrow> call list" where
  "listEntry entry =
    (let id_text = esc # js ''[32m['' @ id' entry @ js '']'' @ esc # js ''[0m'';
         title_text = esc # js ''[36m'' @ title entry @ esc # js ''[0m'';
         date_text = esc # js ''[33m'' @ date entry @ esc # js ''[0m'';
         tags_text =
           join (js '' '') (map (\<lambda>t. esc # js ''[35m#'' @ t @ esc # js ''[0m'') (tags entry))
     in [Writeln (js ''  '' @ id_text @ js '' '' @ title_text),
         Writeln (js ''      Date: '' @ date_text @ js ''  Tags: '' @ tags_text),
         Writeln []])"

definition listEntries :: "DOSPost list \<Rightarrow> call list" where
  "listEntries posts =
    [Writeln [],
     Writeln (esc # js ''[33m'' @ replicate 59 0x2550 @ esc # js ''[0m''),
     Writeln (esc # js ''[33m                        ENTRIES'' @ esc # js ''[0m''),
     Writeln (esc # js ''[33m'' @ replicate 59 0x2550 @ esc # js ''[0m''),
     Writeln []]
    @ concat (map listEntry posts)
    @ [Writeln (js ''Total: '' @ show_nat (length posts) @ js '' entr(y/ies)''),
       Writeln []]"

definition readEntry :: "DOSPost list \<Rightarrow> jsstring \<Rightarrow> call list" where
  "readEntry posts ident =
    (case find (\<lambda>p. id' p = ident) posts of
       None \<Rightarrow>
         [Writeln (esc # js ''[31mEntry not found: '' @ ident @ esc # js ''[0m''),
          Writeln (js ''Use LIST to see available entries.'')]
     | Some entry \<Rightarrow>
         [Writeln [],
          Writeln (esc # js ''[33m'' @ replicate 59 0x2550 @ esc # js ''[0m''),
          Writeln (esc # js ''[36m'' @ title entry @ esc # js ''[0m''),
          Writeln (esc # js ''[33m'' @ replicate 59 0x2550 @ esc # js ''[0m''),
          Writeln [],
          Writeln (esc # js ''[33mDate:'' @ esc # js ''[0m '' @ date entry),
          Writeln (esc # js ''[33mTags:'' @ esc # js ''[0m ''
                   @ join (js '' '') (map (\<lambda>t. js ''#'' @ t) (tags entry))),
          Writeln [],
          Writeln (esc # js ''[33m'' @ replicate 59 0x2500 @ esc # js ''[0m''),
          Writeln []]
         @ map (\<lambda>line. Writeln (js ''  '' @ line)) (split_char 0x0A [] (content entry))
         @ [Writeln [],
            Writeln (esc # js ''[33m'' @ replicate 59 0x2500 @ esc # js ''[0m''),
            Writeln []])"

definition clearTerminal :: "call list" where
  "clearTerminal = Clear # printWelcome"

definition showAbout :: "call list" where
  "showAbout =
    [Writeln [],
     Writeln (esc # js ''[33m'' @ replicate 59 0x2550 @ esc # js ''[0m''),
     Writeln (esc # js ''[33m                         ABOUT'' @ esc # js ''[0m''),
     Writeln (esc # js ''[33m'' @ replicate 59 0x2550 @ esc # js ''[0m''),
     Writeln [],
     Writeln (js ''  A retro-inspired DOS terminal experience built with:''),
     Writeln (js ''  - xterm.js terminal emulator''),
     Writeln (js ''  - TypeScript''),
     Writeln (js ''  - Astro framework''),
     Writeln [],
     Writeln (js ''  Experience the nostalgia of DOS-era computing''),
     Writeln (js ''  with a modern twist.''),
     Writeln [],
     Writeln (js ''  Type HELP for available commands.''),
     Writeln []]"

section \<open>The command dispatcher\<close>

text \<open>The two lines of the \<open>default\<close> branch, for the verb as the template literal prints it.\<close>

definition badCommand :: "jsstring \<Rightarrow> call list" where
  "badCommand cmd =
    [Writeln (esc # js ''[31mBad command or file name: '' @ cmd @ esc # js ''[0m''),
     Writeln (js ''Type HELP for available commands.'')]"

text \<open>
  \<open>parts[0]\<close> of an empty array would be \<open>undefined\<close>, which matches no \<open>case\<close> and is
  printed as the text \<open>undefined\<close>; \<open>split\<close> never returns an empty array, but the branch
  is written as the code would run it.
\<close>

definition executeCommand :: "DOSPost list \<Rightarrow> jsstring \<Rightarrow> call list" where
  "executeCommand posts command =
    (case split_ws [] command of
       [] \<Rightarrow> badCommand (js ''undefined'')
     | cmd # args \<Rightarrow>
         if cmd = js ''HELP'' \<or> cmd = js ''?'' then showHelp
         else if cmd = js ''LIST'' \<or> cmd = js ''DIR'' then listEntries posts
         else if cmd = js ''READ'' then
           (case args of
              a # _ \<Rightarrow> readEntry posts a
            | [] \<Rightarrow>
                [Writeln (esc # js ''[31mError: Please specify an entry ID.'' @ esc # js ''[0m''),
                 Writeln (js ''Usage: READ <id>'')])
         else if cmd = js ''CLEAR'' \<or> cmd = js ''CLS'' then clearTerminal
         else if cmd = js ''ABOUT'' then showAbout
         else if cmd = js ''EXIT'' \<or> cmd = js ''QUIT'' then
           [Writeln (esc # js ''[33mTo exit, please refresh the page.'' @ esc # js ''[0m'')]
         else if cmd = [] then []
         else badCommand cmd)"

section \<open>The console\<close>

record DOSTerminal =
  currentLine :: jsstring
  commandHistory :: "jsstring list"
  historyIndex :: int
  terminal :: "call list"

text \<open>The calls \<open>cs\<close> reach the terminal after everything written before.\<close>

definition emit :: "call list \<Rightarrow> DOSTerminal \<Rightarrow> DOSTerminal" where
  "emit cs s = s\<lparr>terminal := terminal s @ cs\<rparr>"

text \<open>
  The console as the constructor leaves it: the field initialisers, then \<open>init\<close>, which
  prints the banner and the first prompt.
\<close>

definition initial :: DOSTerminal where
  "initial =
     emit printPrompt (emit printWelcome
       \<lparr>currentLine = [], commandHistory = [], historyIndex = - 1, terminal = []\<rparr>)"

text \<open>\<open>up\<close> stands for \<open>String.prototype.toUpperCase\<close>.\<close>

definition handleEnter ::
  "(jsstring \<Rightarrow> jsstring) \<Rightarrow> DOSPost list \<Rightarrow> DOSTerminal \<Rightarrow> DOSTerminal" where
  "handleEnter up posts s =
    (let s1 = emit [Writeln []] s;
         command = up (trim (currentLine s1));
         s2 = (if command \<noteq> [] then
                 (let h = commandHistory s1 @ [trim (currentLine s1)]
                  in emit (executeCommand posts command)
                       (s1\<lparr>commandHistory := h, historyIndex := int (length h)\<rparr>))
               else s1)
     in emit printPrompt (s2\<lparr>currentLine := []\<rparr>))"

definition handleBackspace :: "DOSTerminal \<Rightarrow> DOSTerminal" where
  "handleBackspace s =
    (if length (currentLine s) > 0 then
       emit [Write [0x08, 0x20, 0x08]] (s\<lparr>currentLine := slice0m1 (currentLine s)\<rparr>)
     else s)"

definition clearCurrentLine :: "DOSTerminal \<Rightarrow> DOSTerminal" where
  "clearCurrentLine s = emit (replicate (length (currentLine s)) (Write [0x08, 0x20, 0x08])) s"

text \<open>
  \<open>commandHistory[historyIndex]\<close>. Outside the array JavaScript gives \<open>undefined\<close>, here
  \<open>None\<close>. The buffer is declared a string and every handler uses it as one, so a
  handler that would load \<open>undefined\<close> into it returns the error instead of a console.
\<close>

datatype error = UndefinedEntry

definition entryAt :: "jsstring list \<Rightarrow> int \<Rightarrow> jsstring option" where
  "entryAt h i = (if 0 \<le> i \<and> i < int (length h) then Some (h ! nat i) else None)"

text \<open>
  The two statements that end both recalling branches: load the buffer from the entry
  under the cursor and echo it.
\<close>

definition recall :: "DOSTerminal \<Rightarrow> error + DOSTerminal" where
  "recall s =
    (case entryAt (commandHistory s) (historyIndex s) of
       None \<Rightarrow> Inl UndefinedEntry
     | Some line \<Rightarrow> Inr (emit [Write line] (s\<lparr>currentLine := line\<rparr>)))"

definition handleArrowUp :: "DOSTerminal \<Rightarrow> error + DOSTerminal" where
  "handleArrowUp s =
    (if historyIndex s > 0 then
       recall (clearCurrentLine (s\<lparr>historyIndex := historyIndex s - 1\<rparr>))
     else Inr s)"

definition handleArrowDown :: "DOSTerminal \<Rightarrow> error + DOSTerminal" where
  "handleArrowDown s =
    (if historyIndex s < int (length (commandHistory s)) - 1 then
       recall (clearCurrentLine (s\<lparr>historyIndex := historyIndex s + 1\<rparr>))
     else
       Inr ((clearCurrentLine (s\<lparr>historyIndex := int (length (commandHistory s))\<rparr>))
              \<lparr>currentLine := []\<rparr>))"

text \<open>The listener that \<open>setupInput\<close> registers: one call for each input event.\<close>

definition onData ::
  "(jsstring \<Rightarrow> jsstring) \<Rightarrow> DOSPost list \<Rightarrow> jsstring \<Rightarrow> DOSTerminal
     \<Rightarrow> error + DOSTerminal" where
  "onData up posts data s =
    (let code = charCodeAt0 data in
     if code = Some 13 then Inr (handleEnter up posts s)
     else if code = Some 127 \<or> code = Some 8 then Inr (handleBackspace s)
     else if code = Some 27 then
       (let rest = slice1 data in
        if rest = js ''[A'' then handleArrowUp s
        else if rest = js ''[B'' then handleArrowDown s
        else Inr s)
     else if js_ge data (js '' '') then
       Inr (emit [Write data] (s\<lparr>currentLine := currentLine s @ data\<rparr>))
     else Inr s)"

text \<open>The events of a session, handled one after the other.\<close>

fun run ::
  "(jsstring \<Rightarrow> jsstring) \<Rightarrow> DOSPost list \<Rightarrow> jsstring list \<Rightarrow> DOSTerminal
     \<Rightarrow> error + DOSTerminal" where
  "run up posts [] s = Inr s"
| "run up posts (data # rest) s =
     (case onData up posts data s of
        Inl e \<Rightarrow> Inl e
      | Inr s' \<Rightarrow> run up posts rest s')"

text \<open>
  The cursor is at its initial value over an empty history, or it points at an entry
  or just past the newest one.
\<close>

definition cursor_ok :: "DOSTerminal \<Rightarrow> bool" where
  "cursor_ok s =
    ((historyIndex s = - 1 \<and> commandHistory s = [])
     \<or> (0 \<le> historyIndex s \<and> historyIndex s \<le> int (length (commandHistory s))))"

section \<open>Facts about the string functions\<close>

lemmas run_defs = onData_def charCodeAt0_def js_ge_def js_def esc_def slice1_def slice0m1_def
  handleEnter_def handleBackspace_def handleArrowUp_def handleArrowDown_def recall_def
  entryAt_def clearCurrentLine_def emit_def trim_def isWhiteSpace_def ascii_upper_def Let_def

lemma js_lt_Nil_right [simp]: "\<not> js_lt xs []"
  by (cases xs) auto

text \<open>\<open>data >= ' '\<close> holds exactly when \<open>data\<close> starts with a code unit of 32 or more.\<close>

lemma js_ge_space: "js_ge data (js '' '') = (case data of [] \<Rightarrow> False | c # _ \<Rightarrow> 32 \<le> c)"
  by (cases data) (auto simp: js_ge_def js_def)

lemma ascii_upper_Nil_iff: "(ascii_upper t = []) = (t = [])"
  by (simp add: ascii_upper_def)

lemma split_ws_nonempty: "split_ws cur s \<noteq> []"
  by (induction cur s rule: split_ws.induct) auto

lemma split_char_nonempty: "split_char sep cur s \<noteq> []"
  by (induction s arbitrary: cur) auto

lemma join_Cons: "ys \<noteq> [] \<Longrightarrow> join sep (x # ys) = x @ sep @ join sep ys"
  by (cases ys) auto

text \<open>Splitting at a code unit loses nothing: joining the pieces gives the text back.\<close>

lemma join_split_char: "join [sep] (split_char sep cur s) = cur @ s"
  by (induction s arbitrary: cur) (auto simp: join_Cons split_char_nonempty)

lemma find_Some_member: "find P xs = Some x \<Longrightarrow> x \<in> set xs \<and> P x"
  by (induction xs) (auto split: if_splits)

lemma find_present:
  "ident \<in> id' ` set posts \<Longrightarrow>
     \<exists>entry. find (\<lambda>p. id' p = ident) posts = Some entry \<and> entry \<in> set posts \<and> id' entry = ident"
proof -
  assume "ident \<in> id' ` set posts"
  then have "find (\<lambda>p. id' p = ident) posts \<noteq> None"
    by (auto simp: find_None_iff)
  then obtain entry where "find (\<lambda>p. id' p = ident) posts = Some entry" by auto
  with find_Some_member [OF this] show ?thesis by simp
qed

lemma find_absent:
  "ident \<notin> id' ` set posts \<Longrightarrow> find (\<lambda>p. id' p = ident) posts = None"
  by (auto simp: find_None_iff)

section \<open>The cursor over the history\<close>

lemma cursor_ok_initial: "cursor_ok initial"
  by (simp add: cursor_ok_def initial_def emit_def)

lemma cursor_ok_handleEnter: "cursor_ok s \<Longrightarrow> cursor_ok (handleEnter up posts s)"
  by (auto simp: cursor_ok_def handleEnter_def emit_def Let_def)

lemma cursor_ok_handleBackspace: "cursor_ok s \<Longrightarrow> cursor_ok (handleBackspace s)"
  by (auto simp: cursor_ok_def handleBackspace_def emit_def)

lemma handleArrowUp_ok:
  "cursor_ok s \<Longrightarrow> \<exists>s'. handleArrowUp s = Inr s' \<and> cursor_ok s'"
  by (auto simp: cursor_ok_def handleArrowUp_def recall_def entryAt_def clearCurrentLine_def
      emit_def)

lemma handleArrowDown_ok:
  "cursor_ok s \<Longrightarrow> \<exists>s'. handleArrowDown s = Inr s' \<and> cursor_ok s'"
  by (auto simp: cursor_ok_def handleArrowDown_def recall_def entryAt_def clearCurrentLine_def
      emit_def)

lemma onData_ok:
  assumes "cursor_ok s"
  shows "\<exists>s'. onData up posts data s = Inr s' \<and> cursor_ok s'"
proof -
  have "cursor_ok (emit [Write data] (s\<lparr>currentLine := currentLine s @ data\<rparr>))"
    using assms by (simp add: cursor_ok_def emit_def)
  then show ?thesis
    using assms handleArrowUp_ok [OF assms] handleArrowDown_ok [OF assms]
    by (auto simp: onData_def Let_def cursor_ok_handleEnter cursor_ok_handleBackspace)
qed

lemma run_ok:
  "cursor_ok s \<Longrightarrow> \<exists>s'. run up posts evs s = Inr s' \<and> cursor_ok s'"
proof (induction evs arbitrary: s)
  case Nil
  then show ?case by simp
next
  case (Cons data evs)
  from onData_ok [OF Cons.prems] obtain s1
    where s1: "onData up posts data s = Inr s1" "cursor_ok s1" by blast
  from Cons.IH [OF s1(2)] s1(1) show ?case by simp
qed

text \<open>
  When a recalling handler returns the error: exactly when the entry it reads lies
  outside the history.
\<close>

lemma handleArrowUp_undefined_iff:
  "handleArrowUp s = Inl e \<longleftrightarrow>
     0 < historyIndex s \<and> int (length (commandHistory s)) \<le> historyIndex s - 1"
  by (cases e)
    (auto simp: handleArrowUp_def recall_def entryAt_def clearCurrentLine_def emit_def)

lemma handleArrowDown_undefined_iff:
  "handleArrowDown s = Inl e \<longleftrightarrow>
     historyIndex s < int (length (commandHistory s)) - 1 \<and> historyIndex s + 1 < 0"
  by (cases e)
    (auto simp: handleArrowDown_def recall_def entryAt_def clearCurrentLine_def emit_def)

lemma onData_arrowUp: "onData up posts (esc # js ''[A'') s = handleArrowUp s"
  by (simp add: onData_def charCodeAt0_def esc_def slice1_def js_def)

lemma onData_arrowDown: "onData up posts (esc # js ''[B'') s = handleArrowDown s"
  by (simp add: onData_def charCodeAt0_def esc_def slice1_def js_def)

section \<open>Claims about the input state machine\<close>

subsection \<open>C1: the range of the history cursor\<close>

text \<open>
  Against claim C1 as stated. The field initialiser sets the cursor to \<open>-1\<close>, so the
  freshly constructed console already has a cursor below zero, and it stays there
  through typing and erasing.
\<close>

theorem cursor_below_zero_initially:
  "\<not> (0 \<le> historyIndex initial \<and> historyIndex initial \<le> int (length (commandHistory initial)))
   \<and> map_sum id historyIndex (run ascii_upper dosPosts [js ''a'', [0x7F]] initial) = Inr (- 1)"
  by (simp add: initial_def emit_def onData_def charCodeAt0_def js_ge_def js_def
      handleBackspace_def)

text \<open>
  Claim C1, amended. In every state the console reaches from its construction, after
  any sequence of events, the history cursor is either \<open>-1\<close> over an empty history (its
  initial value) or lies in the range from 0 to the number of history entries.
\<close>

theorem cursor_range_reachable:
  "run up posts evs initial = Inr s \<Longrightarrow>
     (historyIndex s = - 1 \<and> commandHistory s = [])
     \<or> (0 \<le> historyIndex s \<and> historyIndex s \<le> int (length (commandHistory s)))"
  using run_ok [OF cursor_ok_initial, of up posts evs] by (auto simp: cursor_ok_def)

text \<open>The amended C1 on a session that types \<open>x\<close> and submits it.\<close>

theorem cursor_range_reachable_witness:
  "(let s = initial\<lparr>commandHistory := [js ''x''], historyIndex := 1,
              terminal := terminal initial @ [Write (js ''x''), Writeln []]
                          @ badCommand (js ''X'') @ printPrompt\<rparr>
    in run ascii_upper dosPosts [js ''x'', [13]] initial = Inr s
       \<and> ((historyIndex s = - 1 \<and> commandHistory s = [])
           \<or> (0 \<le> historyIndex s \<and> historyIndex s \<le> int (length (commandHistory s)))))"
proof -
  have r: "run ascii_upper dosPosts [js ''x'', [13]] initial
        = Inr (initial\<lparr>commandHistory := [js ''x''], historyIndex := 1,
              terminal := terminal initial @ [Write (js ''x''), Writeln []]
                          @ badCommand (js ''X'') @ printPrompt\<rparr>)"
    by (simp add: run_defs initial_def executeCommand_def)
  from cursor_range_reachable [OF r] r show ?thesis by (simp add: Let_def)
qed

subsection \<open>C10: recall reads inside the history\<close>

text \<open>
  Claim C10. Whatever events the console has handled since its construction, it has
  reached a state without a read outside the history, and in that state neither the
  history-previous nor the history-next handler reads \<open>commandHistory[historyIndex]\<close>
  outside the array: both return a console, never the error that stands for loading
  \<open>undefined\<close> into the line buffer.
\<close>

theorem recall_reads_in_bounds:
  "\<exists>s. run up posts evs initial = Inr s
       \<and> \<not> isl (handleArrowUp s) \<and> \<not> isl (handleArrowDown s)"
proof -
  from run_ok [OF cursor_ok_initial] obtain s
    where s: "run up posts evs initial = Inr s" "cursor_ok s" by blast
  from handleArrowUp_ok [OF s(2)] handleArrowDown_ok [OF s(2)] s(1)
  show ?thesis by auto
qed

subsection \<open>C2: submission\<close>

text \<open>
  Claim C2. On an event whose first code unit is 13: when the trimmed buffer is empty,
  the history and the cursor stay as they are and the display receives only the line
  break and then the prompt \<open>ESC[32mC:\DOS>ESC[0m\<close> with its trailing space, so the
  dispatcher has not run; when the trimmed buffer is not empty, the trimmed buffer (not
  upper-cased) is appended to the history, the cursor is set to the new number of
  entries, and the display receives the line break, what the dispatcher writes for the
  upper-cased trimmed buffer, and then the same prompt. In both cases the buffer is
  empty afterwards. \<open>up\<close> is \<open>toUpperCase\<close>, of which only this is used: it gives the
  empty string exactly for the empty string.
\<close>

theorem submit_event_result:
  assumes "\<And>t. (up t = []) = (t = [])" and "charCodeAt0 data = Some 13"
  shows "onData up posts data s =
    Inr (if trim (currentLine s) = [] then
           s\<lparr>currentLine := [],
             terminal := terminal s
               @ [Writeln [],
                  Write (esc # js ''[32mC:'' @ 0x5C # js ''DOS>'' @ esc # js ''[0m '')]\<rparr>
         else
           s\<lparr>currentLine := [],
             commandHistory := commandHistory s @ [trim (currentLine s)],
             historyIndex := int (length (commandHistory s @ [trim (currentLine s)])),
             terminal := terminal s @ [Writeln []]
               @ executeCommand posts (up (trim (currentLine s)))
               @ [Write (esc # js ''[32mC:'' @ 0x5C # js ''DOS>'' @ esc # js ''[0m '')]\<rparr>)"
  using assms by (simp add: onData_def handleEnter_def emit_def Let_def printPrompt_def)

text \<open>
  C2 on the buffers \<open>" exit "\<close> and \<open>"  "\<close>, submitted to a console whose display log
  is empty, so that everything the submission writes is shown.
\<close>

theorem submit_event_result_witness:
  "(\<forall>t. (ascii_upper t = []) = (t = [])) \<and> charCodeAt0 [13] = Some 13
   \<and> onData ascii_upper dosPosts [13]
        \<lparr>currentLine = js '' exit '', commandHistory = [js ''dir''], historyIndex = 0,
         terminal = []\<rparr> =
       Inr \<lparr>currentLine = [], commandHistory = [js ''dir'', js ''exit''], historyIndex = 2,
            terminal =
              [Writeln [],
               Writeln (esc # js ''[33mTo exit, please refresh the page.'' @ esc # js ''[0m''),
               Write (esc # js ''[32mC:'' @ 0x5C # js ''DOS>'' @ esc # js ''[0m '')]\<rparr>
   \<and> onData ascii_upper dosPosts [13]
        \<lparr>currentLine = js ''  '', commandHistory = [js ''dir''], historyIndex = 0,
         terminal = []\<rparr> =
       Inr \<lparr>currentLine = [], commandHistory = [js ''dir''], historyIndex = 0,
            terminal =
              [Writeln [],
               Write (esc # js ''[32mC:'' @ 0x5C # js ''DOS>'' @ esc # js ''[0m '')]\<rparr>"
  using submit_event_result [of ascii_upper "[13]" dosPosts
      "\<lparr>currentLine = js '' exit '', commandHistory = [js ''dir''], historyIndex = 0,
        terminal = []\<rparr>"]
    submit_event_result [of ascii_upper "[13]" dosPosts
      "\<lparr>currentLine = js ''  '', commandHistory = [js ''dir''], historyIndex = 0,
        terminal = []\<rparr>"]
  by (simp add: ascii_upper_Nil_iff charCodeAt0_def trim_def isWhiteSpace_def js_def
      executeCommand_def ascii_upper_def esc_def)

subsection \<open>C3: submit, then recall\<close>

text \<open>
  Against claim C3 as stated. The non-empty line \<open>" a"\<close> is submitted and one
  history-previous event follows; the buffer is then \<open>"a"\<close>, not the line submitted,
  because the history stores the trimmed line.
\<close>

theorem leading_space_is_not_recalled:
  "map_sum id currentLine
     (run ascii_upper dosPosts [[13], esc # js ''[A''] (initial\<lparr>currentLine := js '' a''\<rparr>))
   \<noteq> Inr (js '' a'')"
  by (simp add: run_defs initial_def)

text \<open>
  Claim C3, amended. For any line \<open>L\<close> whose trimmed form is not empty, submitting \<open>L\<close>
  and then performing one history-previous event yields a line buffer equal to the
  trimmed \<open>L\<close>; so it equals \<open>L\<close> when \<open>L\<close> has no white space at either end.
\<close>

theorem submit_then_previous:
  assumes "\<And>t. (up t = []) = (t = [])" and "trim L \<noteq> []" and "currentLine s = L"
  shows "map_sum id currentLine (run up posts [[13], esc # js ''[A''] s) = Inr (trim L)
         \<and> (trim L = L \<longrightarrow>
              map_sum id currentLine (run up posts [[13], esc # js ''[A''] s) = Inr L)"
proof -
  have "map_sum id currentLine (run up posts [[13], esc # js ''[A''] s) = Inr (trim L)"
    using assms
    by (simp add: onData_def charCodeAt0_def handleEnter_def emit_def Let_def slice1_def
        handleArrowUp_def recall_def entryAt_def clearCurrentLine_def esc_def nth_append)
  then show ?thesis by simp
qed

text \<open>The amended C3 on the lines \<open>" read 2 "\<close> and \<open>"dir"\<close>.\<close>

theorem submit_then_previous_witness:
  "(\<forall>t. (ascii_upper t = []) = (t = [])) \<and> trim (js '' read 2 '') \<noteq> []
   \<and> currentLine (initial\<lparr>currentLine := js '' read 2 ''\<rparr>) = js '' read 2 ''
   \<and> map_sum id currentLine
        (run ascii_upper dosPosts [[13], esc # js ''[A'']
           (initial\<lparr>currentLine := js '' read 2 ''\<rparr>))
      = Inr (js ''read 2'')
   \<and> trim (js ''dir'') = js ''dir''
   \<and> map_sum id currentLine
        (run ascii_upper dosPosts [[13], esc # js ''[A''] (initial\<lparr>currentLine := js ''dir''\<rparr>))
      = Inr (js ''dir'')"
  using submit_then_previous [of ascii_upper "js '' read 2 ''"
      "initial\<lparr>currentLine := js '' read 2 ''\<rparr>" dosPosts]
    submit_then_previous [of ascii_upper "js ''dir''" "initial\<lparr>currentLine := js ''dir''\<rparr>"
      dosPosts]
  by (simp add: ascii_upper_Nil_iff trim_def isWhiteSpace_def js_def)

subsection \<open>C6: recall at the two ends of the history\<close>

lemma arrowDown_at_end:
  "historyIndex s = int (length (commandHistory s)) \<Longrightarrow>
   handleArrowDown s = Inr (s\<lparr>currentLine := [],
       terminal := terminal s @ replicate (length (currentLine s)) (Write [0x08, 0x20, 0x08])\<rparr>)"
  by (simp add: handleArrowDown_def clearCurrentLine_def emit_def)

lemma run_arrowDown_at_end:
  "historyIndex s = int (length (commandHistory s)) \<Longrightarrow>
   run up posts (replicate (Suc n) (esc # js ''[B'')) s =
     Inr (s\<lparr>currentLine := [],
       terminal := terminal s @ replicate (length (currentLine s)) (Write [0x08, 0x20, 0x08])\<rparr>)"
proof (induction n arbitrary: s)
  case 0
  then show ?case by (simp add: onData_arrowDown arrowDown_at_end)
next
  case (Suc n)
  let ?s1 = "s\<lparr>currentLine := [],
       terminal := terminal s @ replicate (length (currentLine s)) (Write [0x08, 0x20, 0x08])\<rparr>"
  have "run up posts (replicate (Suc (Suc n)) (esc # js ''[B'')) s
      = run up posts (replicate (Suc n) (esc # js ''[B'')) ?s1"
    using Suc.prems by (simp add: onData_arrowDown arrowDown_at_end)
  also have "\<dots> = Inr ?s1"
    using Suc.IH [of ?s1] Suc.prems by simp
  finally show ?case .
qed

text \<open>
  Claim C6. In any state with the cursor at zero, a history-previous event changes
  nothing: buffer, cursor, history and display are as before. In any state with the
  cursor at the number of history entries, one or more history-next events leave the
  buffer empty and the cursor where it was; the display receives one erase sequence
  for each code unit the buffer held and nothing more, however often the event is
  repeated.
\<close>

theorem recall_boundaries:
  "(historyIndex s = 0 \<longrightarrow> onData up posts (esc # js ''[A'') s = Inr s)
   \<and> (historyIndex s = int (length (commandHistory s)) \<longrightarrow>
        run up posts (replicate (Suc n) (esc # js ''[B'')) s =
          Inr (s\<lparr>currentLine := [],
                 terminal := terminal s
                   @ replicate (length (currentLine s)) (Write [0x08, 0x20, 0x08])\<rparr>))"
proof (intro conjI impI)
  assume "historyIndex s = 0"
  then show "onData up posts (esc # js ''[A'') s = Inr s"
    by (simp add: onData_arrowUp handleArrowUp_def)
next
  assume "historyIndex s = int (length (commandHistory s))"
  then show "run up posts (replicate (Suc n) (esc # js ''[B'')) s =
          Inr (s\<lparr>currentLine := [],
                 terminal := terminal s
                   @ replicate (length (currentLine s)) (Write [0x08, 0x20, 0x08])\<rparr>)"
    by (rule run_arrowDown_at_end)
qed

text \<open>
  C6 on a history of two entries: history-previous with the oldest entry shown, and
  three history-next events with \<open>li\<close> typed past the newest entry.
\<close>

theorem recall_boundaries_witness:
  "historyIndex \<lparr>currentLine = js ''dir'', commandHistory = [js ''dir'', js ''help''],
                 historyIndex = 0, terminal = []\<rparr> = 0
   \<and> onData ascii_upper dosPosts (esc # js ''[A'')
        \<lparr>currentLine = js ''dir'', commandHistory = [js ''dir'', js ''help''],
         historyIndex = 0, terminal = []\<rparr>
      = Inr \<lparr>currentLine = js ''dir'', commandHistory = [js ''dir'', js ''help''],
             historyIndex = 0, terminal = []\<rparr>
   \<and> historyIndex \<lparr>currentLine = js ''li'', commandHistory = [js ''dir'', js ''help''],
                   historyIndex = 2, terminal = []\<rparr>
       = int (length (commandHistory \<lparr>currentLine = js ''li'',
                commandHistory = [js ''dir'', js ''help''], historyIndex = 2, terminal = []\<rparr>))
   \<and> run ascii_upper dosPosts (replicate 3 (esc # js ''[B''))
        \<lparr>currentLine = js ''li'', commandHistory = [js ''dir'', js ''help''],
         historyIndex = 2, terminal = []\<rparr>
      = Inr \<lparr>currentLine = [], commandHistory = [js ''dir'', js ''help''],
             historyIndex = 2,
             terminal = [Write [0x08, 0x20, 0x08], Write [0x08, 0x20, 0x08]]\<rparr>"
  using recall_boundaries [of "\<lparr>currentLine = js ''dir'',
      commandHistory = [js ''dir'', js ''help''], historyIndex = 0, terminal = []\<rparr>"
      ascii_upper dosPosts 0]
    recall_boundaries [of "\<lparr>currentLine = js ''li'',
      commandHistory = [js ''dir'', js ''help''], historyIndex = 2, terminal = []\<rparr>"
      ascii_upper dosPosts 2]
  by (simp add: run_defs numeral_3_eq_3)

subsection \<open>C7: printable characters\<close>

lemma onData_printable:
  assumes "32 \<le> c" and "c \<noteq> 127"
  shows "onData up posts (c # rest) s =
     Inr (s\<lparr>currentLine := currentLine s @ c # rest,
            terminal := terminal s @ [Write (c # rest)]\<rparr>)"
proof -
  from assms(1) have "c \<noteq> 13" "c \<noteq> 8" "c \<noteq> 27" by auto
  with assms show ?thesis
    by (simp add: onData_def charCodeAt0_def js_ge_space emit_def)
qed

text \<open>
  Claim C7. Let every event of a sequence be printable (its first code unit is 32 or
  more) and none a control event (13 submits, 127 and 8 erase, 27 starts an escape
  sequence). Then, from any state, the events are appended to the line buffer in
  order, and the display receives exactly the same texts, one write for each event,
  in the same order. From an empty buffer the buffer is the concatenation of the
  events.
\<close>

theorem printable_run:
  assumes "\<forall>d \<in> set ds. \<exists>c rest. d = c # rest \<and> 32 \<le> c \<and> c \<notin> {13, 127, 8, 27}"
  shows "run up posts ds s =
    Inr (s\<lparr>currentLine := currentLine s @ concat ds, terminal := terminal s @ map Write ds\<rparr>)"
  using assms
proof (induction ds arbitrary: s)
  case Nil
  then show ?case by simp
next
  case (Cons d ds)
  from Cons.prems obtain c rest where d: "d = c # rest" "32 \<le> c" "c \<noteq> 127" by auto
  have tail: "\<forall>d \<in> set ds. \<exists>c rest. d = c # rest \<and> 32 \<le> c \<and> c \<notin> {13, 127, 8, 27}"
    using Cons.prems by simp
  show ?case
    using Cons.IH [OF tail] d by (simp add: onData_printable)
qed

text \<open>C7 on the fresh console, with \<open>d\<close>, \<open>i\<close> and \<open>r\<close> typed.\<close>

theorem printable_run_witness:
  "js ''d'' = [100] \<and> js ''i'' = [105] \<and> js ''r'' = [114]
   \<and> run ascii_upper dosPosts [js ''d'', js ''i'', js ''r''] initial =
       Inr (initial\<lparr>currentLine := js ''dir'',
              terminal := terminal initial
                @ [Write (js ''d''), Write (js ''i''), Write (js ''r'')]\<rparr>)"
proof -
  have h: "\<forall>d \<in> set [js ''d'', js ''i'', js ''r''].
      \<exists>c rest. d = c # rest \<and> 32 \<le> c \<and> c \<notin> {13, 127, 8, 27}"
    by (simp add: js_def)
  from printable_run [OF h, of ascii_upper dosPosts initial] show ?thesis
    by (simp add: js_def initial_def emit_def)
qed

subsection \<open>C8: malformed escape events\<close>

text \<open>
  Claim C8. An event that starts with the escape marker (27) and whose remainder is
  neither \<open>[A\<close> nor \<open>[B\<close> (it may be missing) leaves the console as it was: nothing is
  written to the display, and buffer, history and cursor are unchanged.
\<close>

theorem malformed_escape:
  assumes "charCodeAt0 data = Some 27"
    and "slice1 data \<noteq> js ''[A''" and "slice1 data \<noteq> js ''[B''"
  shows "onData up posts data s = Inr s"
  using assms by (simp add: onData_def)

text \<open>C8 on a bare escape and on the cursor-right sequence, with \<open>he\<close> typed.\<close>

theorem malformed_escape_witness:
  "charCodeAt0 [esc] = Some 27 \<and> slice1 [esc] \<noteq> js ''[A'' \<and> slice1 [esc] \<noteq> js ''[B''
   \<and> onData ascii_upper dosPosts [esc] (initial\<lparr>currentLine := js ''he''\<rparr>)
       = Inr (initial\<lparr>currentLine := js ''he''\<rparr>)
   \<and> charCodeAt0 (esc # js ''[C'') = Some 27
   \<and> slice1 (esc # js ''[C'') \<noteq> js ''[A'' \<and> slice1 (esc # js ''[C'') \<noteq> js ''[B''
   \<and> onData ascii_upper dosPosts (esc # js ''[C'') (initial\<lparr>currentLine := js ''he''\<rparr>)
       = Inr (initial\<lparr>currentLine := js ''he''\<rparr>)"
  using malformed_escape [of "[esc]" ascii_upper dosPosts "initial\<lparr>currentLine := js ''he''\<rparr>"]
    malformed_escape [of "esc # js ''[C''" ascii_upper dosPosts
      "initial\<lparr>currentLine := js ''he''\<rparr>"]
  by (simp add: charCodeAt0_def esc_def slice1_def js_def)

subsection \<open>C9: history-next before the first submission\<close>

text \<open>
  Claim C9. With the history empty and the cursor at its initial value \<open>-1\<close>, a
  history-next event sets the cursor to 0 and empties the line buffer, and the
  display receives one erase sequence for each code unit the buffer held, so what
  was typed on the line is wiped.
\<close>

theorem next_before_first_submission:
  assumes "commandHistory s = []" and "historyIndex s = - 1"
  shows "onData up posts (esc # js ''[B'') s =
    Inr (s\<lparr>historyIndex := 0, currentLine := [],
           terminal := terminal s
             @ replicate (length (currentLine s)) (Write [0x08, 0x20, 0x08])\<rparr>)"
  using assms by (simp add: onData_arrowDown handleArrowDown_def clearCurrentLine_def emit_def)

text \<open>C9 on the fresh console with \<open>ab\<close> typed.\<close>

theorem next_before_first_submission_witness:
  "commandHistory (initial\<lparr>currentLine := js ''ab''\<rparr>) = []
   \<and> historyIndex (initial\<lparr>currentLine := js ''ab''\<rparr>) = - 1
   \<and> onData ascii_upper dosPosts (esc # js ''[B'') (initial\<lparr>currentLine := js ''ab''\<rparr>) =
       Inr (initial\<lparr>historyIndex := 0, currentLine := [],
              terminal := terminal initial
                @ [Write [0x08, 0x20, 0x08], Write [0x08, 0x20, 0x08]]\<rparr>)"
  using next_before_first_submission [of "initial\<lparr>currentLine := js ''ab''\<rparr>"
      ascii_upper dosPosts]
  by (simp add: initial_def emit_def js_def)

section \<open>Claims about the command dispatcher\<close>

lemma js_READ_neq:
  "js ''READ'' \<noteq> js ''HELP''" "js ''READ'' \<noteq> js ''?''" "js ''READ'' \<noteq> js ''LIST''"
  "js ''READ'' \<noteq> js ''DIR''"
  by (simp_all add: js_def)

lemma executeCommand_READ_arg:
  "split_ws [] command = js ''READ'' # ident # rest \<Longrightarrow>
     executeCommand posts command = readEntry posts ident"
  by (simp add: executeCommand_def js_READ_neq)

lemma executeCommand_READ_noarg:
  "split_ws [] command = [js ''READ''] \<Longrightarrow>
     executeCommand posts command =
       [Writeln (esc # js ''[31mError: Please specify an entry ID.'' @ esc # js ''[0m''),
        Writeln (js ''Usage: READ <id>'')]"
  by (simp add: executeCommand_def js_READ_neq)

subsection \<open>C4: the READ command\<close>

text \<open>
  Claim C4. Let the command have the verb \<open>READ\<close>, with \<open>ident\<close> its first argument
  where it has one.
  \<^item> If \<open>ident\<close> is the id of an entry of the content store, the store's lookup finds
    an entry with that id, and the output is the detail view of that entry: its
    title, its date, all its tags in order, and one line for each line of its body,
    in order; the lines of the body, joined by line breaks, are the whole body.
  \<^item> If no entry has the id \<open>ident\<close>, the output is the not-found message naming
    \<open>ident\<close> and the hint to use \<open>LIST\<close>, and nothing of any entry.
  \<^item> If there is no argument, the output is the usage error, and it is the same for
    every content store \<open>posts'\<close>: the store is not consulted.
\<close>

theorem read_command:
  "(split_ws [] command = js ''READ'' # ident # rest \<and> ident \<in> id' ` set posts \<longrightarrow>
      (\<exists>entry. find (\<lambda>p. id' p = ident) posts = Some entry
         \<and> entry \<in> set posts \<and> id' entry = ident
         \<and> executeCommand posts command =
             [Writeln [],
              Writeln (esc # js ''[33m'' @ replicate 59 0x2550 @ esc # js ''[0m''),
              Writeln (esc # js ''[36m'' @ title entry @ esc # js ''[0m''),
              Writeln (esc # js ''[33m'' @ replicate 59 0x2550 @ esc # js ''[0m''),
              Writeln [],
              Writeln (esc # js ''[33mDate:'' @ esc # js ''[0m '' @ date entry),
              Writeln (esc # js ''[33mTags:'' @ esc # js ''[0m ''
                       @ join (js '' '') (map (\<lambda>t. js ''#'' @ t) (tags entry))),
              Writeln [],
              Writeln (esc # js ''[33m'' @ replicate 59 0x2500 @ esc # js ''[0m''),
              Writeln []]
             @ map (\<lambda>line. Writeln (js ''  '' @ line)) (split_char 0x0A [] (content entry))
             @ [Writeln [],
                Writeln (esc # js ''[33m'' @ replicate 59 0x2500 @ esc # js ''[0m''),
                Writeln []]
         \<and> join [0x0A] (split_char 0x0A [] (content entry)) = content entry))
   \<and> (split_ws [] command = js ''READ'' # ident # rest \<and> ident \<notin> id' ` set posts \<longrightarrow>
        executeCommand posts command =
          [Writeln (esc # js ''[31mEntry not found: '' @ ident @ esc # js ''[0m''),
           Writeln (js ''Use LIST to see available entries.'')])
   \<and> (split_ws [] command = [js ''READ''] \<longrightarrow>
        executeCommand posts command =
          [Writeln (esc # js ''[31mError: Please specify an entry ID.'' @ esc # js ''[0m''),
           Writeln (js ''Usage: READ <id>'')]
        \<and> executeCommand posts' command = executeCommand posts command)"
proof (intro conjI impI)
  assume a: "split_ws [] command = js ''READ'' # ident # rest \<and> ident \<in> id' ` set posts"
  then obtain entry where e: "find (\<lambda>p. id' p = ident) posts = Some entry"
    "entry \<in> set posts" "id' entry = ident"
    using find_present by blast
  have "executeCommand posts command = readEntry posts ident"
    using a by (simp add: executeCommand_READ_arg)
  with e show "\<exists>entry. find (\<lambda>p. id' p = ident) posts = Some entry
         \<and> entry \<in> set posts \<and> id' entry = ident
         \<and> executeCommand posts command =
             [Writeln [],
              Writeln (esc # js ''[33m'' @ replicate 59 0x2550 @ esc # js ''[0m''),
              Writeln (esc # js ''[36m'' @ title entry @ esc # js ''[0m''),
              Writeln (esc # js ''[33m'' @ replicate 59 0x2550 @ esc # js ''[0m''),
              Writeln [],
              Writeln (esc # js ''[33mDate:'' @ esc # js ''[0m '' @ date entry),
              Writeln (esc # js ''[33mTags:'' @ esc # js ''[0m ''
                       @ join (js '' '') (map (\<lambda>t. js ''#'' @ t) (tags entry))),
              Writeln [],
              Writeln (esc # js ''[33m'' @ replicate 59 0x2500 @ esc # js ''[0m''),
              Writeln []]
             @ map (\<lambda>line. Writeln (js ''  '' @ line)) (split_char 0x0A [] (content entry))
             @ [Writeln [],
                Writeln (esc # js ''[33m'' @ replicate 59 0x2500 @ esc # js ''[0m''),
                Writeln []]
         \<and> join [0x0A] (split_char 0x0A [] (content entry)) = content entry"
    by (intro exI [of _ entry]) (simp add: readEntry_def join_split_char)
next
  assume "split_ws [] command = js ''READ'' # ident # rest \<and> ident \<notin> id' ` set posts"
  then show "executeCommand posts command =
          [Writeln (esc # js ''[31mEntry not found: '' @ ident @ esc # js ''[0m''),
           Writeln (js ''Use LIST to see available entries.'')]"
    by (simp add: executeCommand_READ_arg readEntry_def find_absent)
next
  assume a: "split_ws [] command = [js ''READ'']"
  then show "executeCommand posts command =
          [Writeln (esc # js ''[31mError: Please specify an entry ID.'' @ esc # js ''[0m''),
           Writeln (js ''Usage: READ <id>'')]"
    by (rule executeCommand_READ_noarg)
  from a show "executeCommand posts' command = executeCommand posts command"
    by (simp add: executeCommand_READ_noarg)
qed

text \<open>
  C4 on the store of the source: \<open>READ 3\<close> prints the third entry, \<open>READ 9\<close> finds
  nothing, \<open>READ\<close> alone prints the usage error.
\<close>

theorem read_command_witness:
  "split_ws [] (js ''READ 3'') = js ''READ'' # js ''3'' # []
   \<and> js ''3'' \<in> id' ` set dosPosts
   \<and> executeCommand dosPosts (js ''READ 3'') =
       [Writeln [],
        Writeln (esc # js ''[33m'' @ replicate 59 0x2550 @ esc # js ''[0m''),
        Writeln (esc # js ''[36mThe Art of Minimalism'' @ esc # js ''[0m''),
        Writeln (esc # js ''[33m'' @ replicate 59 0x2550 @ esc # js ''[0m''),
        Writeln [],
        Writeln (esc # js ''[33mDate:'' @ esc # js ''[0m 2026-02-08''),
        Writeln (esc # js ''[33mTags:'' @ esc # js ''[0m #philosophy #design #minimalism''),
        Writeln [],
        Writeln (esc # js ''[33m'' @ replicate 59 0x2500 @ esc # js ''[0m''),
        Writeln [],
        Writeln (js ''  Minimalism in design isn't about removing everything.''),
        Writeln (js ''  It's about keeping only what's essential.''),
        Writeln (js ''  ''),
        Writeln (js ''  In terminal interfaces, every character matters.''),
        Writeln (js ''  Every command serves a purpose.''),
        Writeln (js ''  There's no room for unnecessary decoration.''),
        Writeln (js ''  ''),
        Writeln (js ''  This philosophy extends beyond code to life itself.''),
        Writeln [],
        Writeln (esc # js ''[33m'' @ replicate 59 0x2500 @ esc # js ''[0m''),
        Writeln []]
   \<and> split_ws [] (js ''READ 9'') = js ''READ'' # js ''9'' # []
   \<and> js ''9'' \<notin> id' ` set dosPosts
   \<and> executeCommand dosPosts (js ''READ 9'') =
       [Writeln (esc # js ''[31mEntry not found: 9'' @ esc # js ''[0m''),
        Writeln (js ''Use LIST to see available entries.'')]
   \<and> split_ws [] (js ''READ'') = [js ''READ'']
   \<and> executeCommand dosPosts (js ''READ'') =
       [Writeln (esc # js ''[31mError: Please specify an entry ID.'' @ esc # js ''[0m''),
        Writeln (js ''Usage: READ <id>'')]"
proof -
  have s3: "split_ws [] (js ''READ 3'') = js ''READ'' # js ''3'' # []"
    and s9: "split_ws [] (js ''READ 9'') = js ''READ'' # js ''9'' # []"
    and s0: "split_ws [] (js ''READ'') = [js ''READ'']"
    by (simp_all add: js_def isWhiteSpace_def)
  have m3: "js ''3'' \<in> id' ` set dosPosts" and m9: "js ''9'' \<notin> id' ` set dosPosts"
    by (simp_all add: dosPosts_def js_def)
  from read_command [of "js ''READ 3''" "js ''3''" "[]" dosPosts dosPosts] s3 m3
  obtain entry where e: "find (\<lambda>p. id' p = js ''3'') dosPosts = Some entry"
    and out: "executeCommand dosPosts (js ''READ 3'') =
             [Writeln [],
              Writeln (esc # js ''[33m'' @ replicate 59 0x2550 @ esc # js ''[0m''),
              Writeln (esc # js ''[36m'' @ title entry @ esc # js ''[0m''),
              Writeln (esc # js ''[33m'' @ replicate 59 0x2550 @ esc # js ''[0m''),
              Writeln [],
              Writeln (esc # js ''[33mDate:'' @ esc # js ''[0m '' @ date entry),
              Writeln (esc # js ''[33mTags:'' @ esc # js ''[0m ''
                       @ join (js '' '') (map (\<lambda>t. js ''#'' @ t) (tags entry))),
              Writeln [],
              Writeln (esc # js ''[33m'' @ replicate 59 0x2500 @ esc # js ''[0m''),
              Writeln []]
             @ map (\<lambda>line. Writeln (js ''  '' @ line)) (split_char 0x0A [] (content entry))
             @ [Writeln [],
                Writeln (esc # js ''[33m'' @ replicate 59 0x2500 @ esc # js ''[0m''),
                Writeln []]"
    by blast
  from e have "entry = dosPosts ! 2"
    by (simp add: dosPosts_def js_def)
  with out have r3: "executeCommand dosPosts (js ''READ 3'') =
       [Writeln [],
        Writeln (esc # js ''[33m'' @ replicate 59 0x2550 @ esc # js ''[0m''),
        Writeln (esc # js ''[36mThe Art of Minimalism'' @ esc # js ''[0m''),
        Writeln (esc # js ''[33m'' @ replicate 59 0x2550 @ esc # js ''[0m''),
        Writeln [],
        Writeln (esc # js ''[33mDate:'' @ esc # js ''[0m 2026-02-08''),
        Writeln (esc # js ''[33mTags:'' @ esc # js ''[0m #philosophy #design #minimalism''),
        Writeln [],
        Writeln (esc # js ''[33m'' @ replicate 59 0x2500 @ esc # js ''[0m''),
        Writeln [],
        Writeln (js ''  Minimalism in design isn't about removing everything.''),
        Writeln (js ''  It's about keeping only what's essential.''),
        Writeln (js ''  ''),
        Writeln (js ''  In terminal interfaces, every character matters.''),
        Writeln (js ''  Every command serves a purpose.''),
        Writeln (js ''  There's no room for unnecessary decoration.''),
        Writeln (js ''  ''),
        Writeln (js ''  This philosophy extends beyond code to life itself.''),
        Writeln [],
        Writeln (esc # js ''[33m'' @ replicate 59 0x2500 @ esc # js ''[0m''),
        Writeln []]"
    by (simp add: dosPosts_def js_def)
  from read_command [of "js ''READ 9''" "js ''9''" "[]" dosPosts dosPosts] s9 m9
  have r9: "executeCommand dosPosts (js ''READ 9'') =
       [Writeln (esc # js ''[31mEntry not found: 9'' @ esc # js ''[0m''),
        Writeln (js ''Use LIST to see available entries.'')]"
    by (simp add: js_def)
  from read_command [of "js ''READ''" "[]" "[]" dosPosts dosPosts] s0
  have r0: "executeCommand dosPosts (js ''READ'') =
       [Writeln (esc # js ''[31mError: Please specify an entry ID.'' @ esc # js ''[0m''),
        Writeln (js ''Usage: READ <id>'')]"
    by simp
  from s3 m3 r3 s9 m9 r9 s0 r0 show ?thesis by blast
qed

subsection \<open>C5: unrecognized verbs\<close>

text \<open>
  Against claim C5 as stated. For \<open>FOOBAR\<close> the dispatcher writes two lines: the
  bad-command error that names \<open>FOOBAR\<close>, and after it the hint to use \<open>HELP\<close>. The
  error line is not the only output.
\<close>

theorem foobar_prints_hint_line:
  "executeCommand dosPosts (js ''FOOBAR'') =
     [Writeln (esc # js ''[31mBad command or file name: FOOBAR'' @ esc # js ''[0m''),
      Writeln (js ''Type HELP for available commands.'')]
   \<and> executeCommand dosPosts (js ''FOOBAR'')
       \<noteq> [Writeln (esc # js ''[31mBad command or file name: FOOBAR'' @ esc # js ''[0m'')]"
  by (simp add: executeCommand_def badCommand_def js_def isWhiteSpace_def)

text \<open>
  Claim C5, amended. Dispatching a command whose verb is not empty and none of
  \<open>HELP\<close>, \<open>?\<close>, \<open>LIST\<close>, \<open>DIR\<close>, \<open>READ\<close>, \<open>CLEAR\<close>, \<open>CLS\<close>, \<open>ABOUT\<close>, \<open>EXIT\<close>, \<open>QUIT\<close>
  renders exactly one bad-command error line naming that verb, followed by exactly
  one line with the hint to use \<open>HELP\<close>, and no other output.
\<close>

theorem unknown_verb:
  assumes "split_ws [] command = cmd # args"
    and "cmd \<notin> {js ''HELP'', js ''?'', js ''LIST'', js ''DIR'', js ''READ'', js ''CLEAR'',
                 js ''CLS'', js ''ABOUT'', js ''EXIT'', js ''QUIT'', []}"
  shows "executeCommand posts command =
     [Writeln (esc # js ''[31mBad command or file name: '' @ cmd @ esc # js ''[0m''),
      Writeln (js ''Type HELP for available commands.'')]"
  using assms by (simp add: executeCommand_def badCommand_def)

text \<open>The amended C5 on the command \<open>FOOBAR 1\<close>.\<close>

theorem unknown_verb_witness:
  "split_ws [] (js ''FOOBAR 1'') = js ''FOOBAR'' # [js ''1'']
   \<and> js ''FOOBAR'' \<notin> {js ''HELP'', js ''?'', js ''LIST'', js ''DIR'', js ''READ'', js ''CLEAR'',
                 js ''CLS'', js ''ABOUT'', js ''EXIT'', js ''QUIT'', []}
   \<and> executeCommand dosPosts (js ''FOOBAR 1'') =
     [Writeln (esc # js ''[31mBad command or file name: '' @ js ''FOOBAR'' @ esc # js ''[0m''),
      Writeln (js ''Type HELP for available commands.'')]"
proof -
  have h1: "split_ws [] (js ''FOOBAR 1'') = js ''FOOBAR'' # [js ''1'']"
    by (simp add: js_def isWhiteSpace_def)
  have h2: "js ''FOOBAR'' \<notin> {js ''HELP'', js ''?'', js ''LIST'', js ''DIR'', js ''READ'',
      js ''CLEAR'', js ''CLS'', js ''ABOUT'', js ''EXIT'', js ''QUIT'', []}"
    by (simp add: js_def)
  from unknown_verb [OF h1 h2, of dosPosts] h1 h2 show ?thesis by simp
qed

end
